theory Spec2Isabelle
  imports Complex_Main
begin

section \<open>Strings of the host language\<close>

text \<open>
  A JavaScript string is a sequence of code units. The model uses \<^typ>\<open>string\<close>: one
  \<^typ>\<open>char\<close> is one code unit below 256, so \<^term>\<open>length\<close> is the \<^verbatim>\<open>length\<close> property.

  \<^verbatim>\<open>String.prototype.trim\<close> removes white space and line terminators at both ends; below
  256 these are TAB, LF, VT, FF, CR, SP and NBSP.
\<close>

definition is_white_space :: "char \<Rightarrow> bool" where
  "is_white_space c =
     (c = CHR 0x09 \<or> c = CHR 0x0A \<or> c = CHR 0x0B \<or> c = CHR 0x0C \<or> c = CHR 0x0D
      \<or> c = CHR 0x20 \<or> c = CHR 0xA0)"

definition trim :: "string \<Rightarrow> string" where
  "trim s = rev (dropWhile is_white_space (rev (dropWhile is_white_space s)))"

text \<open>
  \<^verbatim>\<open>encodeURIComponent\<close> keeps the unreserved characters and writes every other code unit
  as the percent-escaped bytes of its UTF-8 encoding (one byte below 128, two bytes from
  128 to 255).
\<close>

definition uri_unreserved :: "char \<Rightarrow> bool" where
  "uri_unreserved c =
     (c \<in> set (''ABCDEFGHIJKLMNOPQRSTUVWXYZabcdefghijklmnopqrstuvwxyz0123456789''
               @ [CHR ''-'', CHR ''_'', CHR ''.'', CHR ''!'', CHR ''~'', CHR ''*'',
                  CHR 0x27, CHR ''('', CHR '')'']))"

definition hex_digit :: "nat \<Rightarrow> char" where
  "hex_digit n = ''0123456789ABCDEF'' ! (n mod 16)"

definition percent_byte :: "nat \<Rightarrow> string" where
  "percent_byte b = [CHR ''%'', hex_digit (b div 16), hex_digit b]"

definition encode_unit :: "char \<Rightarrow> string" where
  "encode_unit c =
     (let n = (of_char c :: nat) in
      if uri_unreserved c then [c]
      else if n < 128 then percent_byte n
      else percent_byte (192 + n div 64) @ percent_byte (128 + n mod 64))"

definition encodeURIComponent :: "string \<Rightarrow> string" where
  "encodeURIComponent s = concat (map encode_unit s)"

text \<open>
  The operator \<^verbatim>\<open>x || d\<close> on a value that is a string, \<^verbatim>\<open>null\<close> or \<^verbatim>\<open>undefined\<close>:
  the default is taken when the value is missing and also when it is the empty string.
\<close>

definition or_default :: "string option \<Rightarrow> string \<Rightarrow> string" where
  "or_default x d = (case x of None \<Rightarrow> d | Some s \<Rightarrow> if s = [] then d else s)"

section \<open>Numbers\<close>

text \<open>
  The numbers of a payload are modelled by the rationals they denote. \<^verbatim>\<open>Math.round\<close>
  returns the nearest integer, a tie going towards plus infinity.
\<close>

definition Math_round :: "rat \<Rightarrow> int" where
  "Math_round x = \<lfloor>x + 1 / 2\<rfloor>"

section \<open>Payloads of the weather service\<close>

record place =
  name :: string
  country :: string

record location_info = place +
  localtime :: string

record condition_info =
  icon :: string
  ctext :: string

record current_info =
  temp_c :: rat
  temp_f :: rat
  condition :: condition_info
  wind_kph :: rat
  wind_dir :: string
  humidity :: rat
  pressure_mb :: rat
  vis_km :: rat
  is_day :: int

record weather_data =
  location :: location_info
  current :: current_info

record error_info =
  message :: "string option"

record error_data =
  error :: "error_info option"

text \<open>
  A settled promise: rejected with an error carrying a message, or fulfilled with a value.
  A response of the current-conditions endpoint has its \<^verbatim>\<open>ok\<close> flag and the outcome of
  reading its body as JSON: a snapshot on success, an error payload otherwise. A response of
  the search endpoint is read only when it is \<^verbatim>\<open>ok\<close>; its body is an array or \<^verbatim>\<open>null\<close>.
\<close>

datatype 'a settled = Rejected string | Fulfilled 'a

datatype current_response =
  Response_ok "weather_data settled"
  | Response_not_ok "error_data settled"


section \<open>Application state, display and environment\<close>

record app_state =
  currentUnit :: string
  lastLocation :: string
  weatherData :: "weather_data option"

record element =
  classList :: "string list"
  textContent :: string
  dataset_unit :: "string option"

text \<open>
  The display elements. A field without suffix is the \<^verbatim>\<open>textContent\<close> of the element of
  that name; \<open>location_text\<close> and \<open>humidity_text\<close> are those of \<^verbatim>\<open>elements.location\<close> and
  \<^verbatim>\<open>elements.humidity\<close>. The suggestion container keeps the markup assigned to
  \<^verbatim>\<open>innerHTML\<close> and its class list.
\<close>

record elements =
  temperature :: string
  location_text :: string
  time :: string
  date :: string
  conditionIcon_src :: string
  conditionIcon_alt :: string
  conditionText :: string
  windSpeed :: string
  windDir :: string
  humidity_text :: string
  pressure :: string
  visibility :: string
  searchInput_value :: string
  suggestions_innerHTML :: string
  suggestions_classList :: "string list"
  unitButtons :: "element list"

text \<open>
  What the host provides and the source does not fix: the conversion of a number to a
  string, the locale's formatting of the time and of the date of a timestamp string, the
  message of the error raised when \<^verbatim>\<open>null\<close> is destructured, and whether the store
  takes a write: \<open>setItemError\<close> gives, for a key and a value, the message of the error
  that \<^verbatim>\<open>localStorage.setItem\<close> throws when the store refuses the write (its quota is
  exceeded, or storage is disabled), and \<open>None\<close> when the store accepts it.
\<close>

record host =
  numberToString :: "rat \<Rightarrow> string"
  toLocaleTimeString :: "string \<Rightarrow> string"
  toLocaleDateString :: "string \<Rightarrow> string"
  nullTypeError :: string
  setItemError :: "string \<Rightarrow> string \<Rightarrow> string option"

record request =
  endpoint :: string
  q :: string

text \<open>
  The world a handler runs in: the application state, the display, the class list of
  \<^verbatim>\<open>document.body\<close>, the persisted key-value store and the requests sent so far.
\<close>

record world =
  state :: app_state
  display :: elements
  body_classList :: "string list"
  localStorage :: "string \<rightharpoonup> string"
  requests :: "request list"

text \<open>
  A handler completes normally with a world, or throws an error with a message in the
  world it has reached.
\<close>

type_synonym completion = "(string \<times> world) + world"

definition try_catch :: "completion \<Rightarrow> (string \<Rightarrow> world \<Rightarrow> completion) \<Rightarrow> completion" where
  "try_catch body handler = (case body of Inl (m, w) \<Rightarrow> handler m w | Inr w \<Rightarrow> Inr w)"

definition and_then :: "completion \<Rightarrow> (world \<Rightarrow> completion) \<Rightarrow> completion" where
  "and_then body rest = (case body of Inl e \<Rightarrow> Inl e | Inr w \<Rightarrow> rest w)"

subsection \<open>Class lists\<close>

definition classList_add :: "string \<Rightarrow> string list \<Rightarrow> string list" where
  "classList_add c cs = (if c \<in> set cs then cs else cs @ [c])"

definition classList_remove :: "string \<Rightarrow> string list \<Rightarrow> string list" where
  "classList_remove c cs = removeAll c cs"

definition classList_toggle :: "string \<Rightarrow> bool \<Rightarrow> string list \<Rightarrow> string list" where
  "classList_toggle c force cs = (if force then classList_add c cs else classList_remove c cs)"

definition classList_contains :: "string \<Rightarrow> string list \<Rightarrow> bool" where
  "classList_contains c cs = (c \<in> set cs)"

section \<open>View renderer\<close>

text \<open>
  \<^verbatim>\<open>current[`temp_${unit}`]\<close>: the snapshot has the two readings \<^verbatim>\<open>temp_c\<close> and
  \<^verbatim>\<open>temp_f\<close>; any other key gives \<^verbatim>\<open>undefined\<close>, which \<^verbatim>\<open>Math.round\<close> turns into
  \<^verbatim>\<open>NaN\<close>.
\<close>

definition temp_of :: "current_info \<Rightarrow> string \<Rightarrow> rat option" where
  "temp_of c unit =
     (if unit = ''c'' then Some (temp_c c)
      else if unit = ''f'' then Some (temp_f c)
      else None)"

definition rounded_text :: "host \<Rightarrow> rat option \<Rightarrow> string" where
  "rounded_text h temp =
     (case temp of None \<Rightarrow> ''NaN''
      | Some t \<Rightarrow> numberToString h (of_int (Math_round t)))"

definition toggle_active :: "string \<Rightarrow> element \<Rightarrow> element" where
  "toggle_active unit btn =
     btn\<lparr>classList := classList_toggle ''active'' (dataset_unit btn = Some unit) (classList btn)\<rparr>"

definition updateTemperature :: "host \<Rightarrow> rat option \<Rightarrow> string \<Rightarrow> world \<Rightarrow> world" where
  "updateTemperature h temp unit w =
     w\<lparr>display := (display w)
        \<lparr>temperature := rounded_text h temp,
         unitButtons := map (toggle_active unit) (unitButtons (display w))\<rparr>\<rparr>"

definition updateDateTime :: "host \<Rightarrow> string \<Rightarrow> world \<Rightarrow> world" where
  "updateDateTime h lt w =
     w\<lparr>display := (display w)
        \<lparr>time := toLocaleTimeString h lt,
         date := toLocaleDateString h lt\<rparr>\<rparr>"

definition render_condition :: "host \<Rightarrow> current_info \<Rightarrow> world \<Rightarrow> world" where
  "render_condition h c w =
     w\<lparr>display := (display w)
          \<lparr>conditionIcon_src := ''https:'' @ icon (condition c),
           conditionIcon_alt := ctext (condition c),
           conditionText := ctext (condition c),
           windSpeed := numberToString h (wind_kph c) @ '' km/h'',
           windDir := wind_dir c,
           humidity_text := numberToString h (humidity c) @ ''%'',
           pressure := numberToString h (pressure_mb c) @ '' hPa'',
           visibility := numberToString h (vis_km c) @ '' km''\<rparr>,
       body_classList := classList_toggle ''night-mode'' (is_day c = 0) (body_classList w)\<rparr>"

text \<open>
  \<^verbatim>\<open>updateUI\<close> reads the snapshot from the state. Destructuring \<^verbatim>\<open>null\<close> throws before
  anything is written. The statements follow the source in order: location label, date and
  time, temperature, then condition, details and day/night class (\<open>render_condition\<close>).
\<close>

definition updateUI :: "host \<Rightarrow> world \<Rightarrow> completion" where
  "updateUI h w =
     (case weatherData (state w) of
        None \<Rightarrow> Inl (nullTypeError h, w)
      | Some d \<Rightarrow>
          (let w1 = w\<lparr>display := (display w)
                       \<lparr>location_text := name (location d) @ '', '' @ country (location d)\<rparr>\<rparr>;
               w2 = updateDateTime h (localtime (location d)) w1;
               w3 = updateTemperature h
                      (temp_of (current d) (currentUnit (state w2))) (currentUnit (state w2)) w2
           in Inr (render_condition h (current d) w3)))"

definition showLoadingState :: "world \<Rightarrow> world" where
  "showLoadingState w =
     w\<lparr>display := (display w)\<lparr>temperature := ''...'', conditionText := ''Loading...''\<rparr>\<rparr>"

definition showErrorState :: "string \<Rightarrow> world \<Rightarrow> world" where
  "showErrorState msg w =
     w\<lparr>display := (display w)
        \<lparr>temperature := ''--'',
         conditionText := or_default (Some msg) ''Data unavailable''\<rparr>\<rparr>"

section \<open>State management\<close>

text \<open>
  \<^verbatim>\<open>storeLocation\<close> assigns the location in memory first and then calls
  \<^verbatim>\<open>localStorage.setItem\<close>, unguarded: when the store refuses the write, the error is
  thrown to the caller with the location in memory already assigned and the store as it was.
\<close>

definition storeLocation :: "host \<Rightarrow> string \<Rightarrow> world \<Rightarrow> completion" where
  "storeLocation h loc w =
     (let w1 = w\<lparr>state := (state w)\<lparr>lastLocation := loc\<rparr>\<rparr> in
      case setItemError h ''lastLocation'' loc of
        Some m \<Rightarrow> Inl (m, w1)
      | None \<Rightarrow> Inr (w1\<lparr>localStorage := (localStorage w1)(''lastLocation'' \<mapsto> loc)\<rparr>))"

text \<open>
  The module-level initialiser of \<^verbatim>\<open>state\<close>, and the world of a fresh page load over a
  given store and initial display.
\<close>

definition initial_state :: "(string \<rightharpoonup> string) \<Rightarrow> app_state" where
  "initial_state store =
     \<lparr>currentUnit = ''c'',
      lastLocation = or_default (store ''lastLocation'') ''London'',
      weatherData = None\<rparr>"

definition page_load :: "(string \<rightharpoonup> string) \<Rightarrow> elements \<Rightarrow> string list \<Rightarrow> world" where
  "page_load store els body =
     \<lparr>state = initial_state store, display = els, body_classList = body,
      localStorage = store, requests = []\<rparr>"

section \<open>Weather client and fetch cycle\<close>

text \<open>
  A request is recorded by its endpoint and the escaped \<^verbatim>\<open>q\<close> parameter; the fixed
  \<^verbatim>\<open>key\<close> parameter is the same in every request.
\<close>

definition current_request :: "string \<Rightarrow> request" where
  "current_request loc = \<lparr>endpoint = ''current.json'', q = encodeURIComponent loc\<rparr>"


definition send :: "request \<Rightarrow> world \<Rightarrow> world" where
  "send r w = w\<lparr>requests := requests w @ [r]\<rparr>"

text \<open>
  \<^verbatim>\<open>errorData.error?.message || 'Weather data unavailable'\<close>.
\<close>

definition error_message :: "error_data \<Rightarrow> string" where
  "error_message errorData =
     or_default (case error errorData of None \<Rightarrow> None | Some e \<Rightarrow> message e)
       ''Weather data unavailable''"

text \<open>
  \<^verbatim>\<open>fetchWeather\<close> runs in two parts. The first, up to the first \<^verbatim>\<open>await\<close>, shows the
  loading state and sends the request. The second runs when the response and its body have
  settled; between the two \<^verbatim>\<open>await\<close>s the function reads and writes nothing. The body of
  the \<^verbatim>\<open>try\<close> block is \<open>fetchWeather_try\<close>; the \<^verbatim>\<open>catch\<close> clause renders the error state.
\<close>

definition fetchWeather_begin :: "string \<Rightarrow> world \<Rightarrow> world" where
  "fetchWeather_begin loc w = send (current_request loc) (showLoadingState w)"

definition fetchWeather_try ::
  "host \<Rightarrow> string \<Rightarrow> current_response settled \<Rightarrow> world \<Rightarrow> completion" where
  "fetchWeather_try h loc outcome w =
     (case outcome of
        Rejected m \<Rightarrow> Inl (m, w)
      | Fulfilled (Response_not_ok body) \<Rightarrow>
          (case body of
             Rejected m \<Rightarrow> Inl (m, w)
           | Fulfilled errorData \<Rightarrow> Inl (error_message errorData, w))
      | Fulfilled (Response_ok body) \<Rightarrow>
          (case body of
             Rejected m \<Rightarrow> Inl (m, w)
           | Fulfilled d \<Rightarrow>
               and_then (updateUI h (w\<lparr>state := (state w)\<lparr>weatherData := Some d\<rparr>\<rparr>))
                 (storeLocation h loc)))"

definition fetchWeather_settle ::
  "host \<Rightarrow> string \<Rightarrow> current_response settled \<Rightarrow> world \<Rightarrow> completion" where
  "fetchWeather_settle h loc outcome w =
     try_catch (fetchWeather_try h loc outcome w) (\<lambda>m w'. Inr (showErrorState m w'))"

definition fetchWeather ::
  "host \<Rightarrow> string \<Rightarrow> current_response settled \<Rightarrow> world \<Rightarrow> completion" where
  "fetchWeather h loc outcome w = fetchWeather_settle h loc outcome (fetchWeather_begin loc w)"

definition initApp :: "host \<Rightarrow> current_response settled \<Rightarrow> world \<Rightarrow> completion" where
  "initApp h outcome w = fetchWeather h (lastLocation (state w)) outcome w"

section \<open>Interaction controller\<close>

definition switchUnit :: "host \<Rightarrow> string \<Rightarrow> world \<Rightarrow> world" where
  "switchUnit h unit w =
     (if currentUnit (state w) = unit then w
      else case weatherData (state w) of
        None \<Rightarrow> w
      | Some d \<Rightarrow>
          updateTemperature h (temp_of (current d) unit) unit
            (w\<lparr>state := (state w)\<lparr>currentUnit := unit\<rparr>\<rparr>))"

definition hideSuggestions :: "world \<Rightarrow> world" where
  "hideSuggestions w =
     w\<lparr>display := (display w)
        \<lparr>suggestions_classList := classList_remove ''show'' (suggestions_classList (display w))\<rparr>\<rparr>"

definition clearSearch :: "world \<Rightarrow> world" where
  "clearSearch w = hideSuggestions (w\<lparr>display := (display w)\<lparr>searchInput_value := []\<rparr>\<rparr>)"

definition handleSearch :: "host \<Rightarrow> current_response settled \<Rightarrow> world \<Rightarrow> completion" where
  "handleSearch h outcome w =
     (let loc = trim (searchInput_value (display w)) in
      if loc \<noteq> [] then and_then (fetchWeather h loc outcome w) (\<lambda>w'. Inr (clearSearch w'))
      else Inr w)"

text \<open>
  A suggestion entry is written as one \<^verbatim>\<open>div\<close> of class \<^verbatim>\<open>suggestion-item\<close>: the
  markup is the string the source assigns to \<^verbatim>\<open>innerHTML\<close>, with the entry's text put in
  as it is.
\<close>

definition suggestion_markup :: "string \<Rightarrow> string" where
  \<open>suggestion_markup t = ''<div class="suggestion-item">'' @ t @ ''</div>''\<close>

definition set_innerHTML :: "string \<Rightarrow> world \<Rightarrow> world" where
  "set_innerHTML markup w = w\<lparr>display := (display w)\<lparr>suggestions_innerHTML := markup\<rparr>\<rparr>"

definition showSuggestions :: "place list option \<Rightarrow> world \<Rightarrow> world" where
  "showSuggestions suggestions w =
     (let w1 =
        (case suggestions of
           None \<Rightarrow> set_innerHTML (suggestion_markup ''No results found'') w
         | Some items \<Rightarrow>
             if length items = 0 then set_innerHTML (suggestion_markup ''No results found'') w
             else set_innerHTML
                    (concat (map (\<lambda>item. suggestion_markup (name item @ '', '' @ country item))
                       (take 5 items))) w)
      in w1\<lparr>display := (display w1)
            \<lparr>suggestions_classList :=
               classList_add ''show'' (suggestions_classList (display w1))\<rparr>\<rparr>)"

text \<open>
  The elements the host builds from markup assigned to \<^verbatim>\<open>innerHTML\<close>, for markup that
  is a sequence of \<^verbatim>\<open><div class="c">t</div>\<close> where \<open>c\<close> is one class name and \<open>t\<close> is
  text without \<^verbatim>\<open><\<close>, \<^verbatim>\<open>&\<close>, carriage return or the null character: one element for
  each \<^verbatim>\<open>div\<close>, with that class and that text. For other markup the model gives no
  answer (\<open>None\<close>).
\<close>

definition starts_with :: "string \<Rightarrow> string \<Rightarrow> bool" where
  "starts_with p s = (take (length p) s = p)"

definition plain_text :: "string \<Rightarrow> bool" where
  "plain_text t = list_all (\<lambda>c. c \<notin> set [CHR ''<'', CHR ''&'', CHR 0x0D, CHR 0x00]) t"

definition class_name :: "string \<Rightarrow> bool" where
  "class_name c =
     (c \<noteq> [] \<and> list_all (\<lambda>x. x \<notin> set [CHR 0x22, CHR ''&'', CHR 0x00, CHR 0x09, CHR 0x0A,
                                             CHR 0x0C, CHR 0x0D, CHR 0x20]) c)"

definition parse_div :: "string \<Rightarrow> (element \<times> string) option" where
  \<open>parse_div s =
     (if starts_with ''<div class="'' s then
        (let r1 = drop 12 s;
             c = takeWhile (\<lambda>x. x \<noteq> CHR 0x22) r1;
             r2 = drop (length c) r1
         in if starts_with ''">'' r2 \<and> class_name c then
              (let r3 = drop 2 r2;
                   t = takeWhile (\<lambda>x. x \<noteq> CHR ''<'') r3;
                   r4 = drop (length t) r3
               in if starts_with ''</div>'' r4 \<and> plain_text t
                  then Some (\<lparr>classList = [c], textContent = t, dataset_unit = None\<rparr>, drop 6 r4)
                  else None)
            else None)
      else None)\<close>

fun parse_divs :: "nat \<Rightarrow> string \<Rightarrow> element list option" where
  "parse_divs n [] = Some []"
| "parse_divs 0 (x # s) = None"
| "parse_divs (Suc n) (x # s) =
     (case parse_div (x # s) of
        None \<Rightarrow> None
      | Some (el, rest) \<Rightarrow> map_option ((#) el) (parse_divs n rest))"

definition children_of :: "string \<Rightarrow> element list option" where
  "children_of markup = parse_divs (length markup) markup"

definition suggestion_element :: "string \<Rightarrow> element" where
  "suggestion_element t =
     \<lparr>classList = [''suggestion-item''], textContent = t, dataset_unit = None\<rparr>"



text \<open>
  \<^verbatim>\<open>handleSuggestionClick\<close> does not await the fetch it starts: the handler runs the first
  part of \<^verbatim>\<open>fetchWeather\<close>, clears the search and returns; the fetch continues later with
  \<open>fetchWeather_settle\<close> for the same query.
\<close>

definition handleSuggestionClick :: "element \<Rightarrow> world \<Rightarrow> world" where
  "handleSuggestionClick target w =
     (if classList_contains ''suggestion-item'' (classList target)
      then clearSearch (fetchWeather_begin (textContent target) w)
      else w)"

section \<open>Debounce\<close>

text \<open>
  The host's timers over a clock in milliseconds, the variable \<^verbatim>\<open>timeout\<close> of the closure
  that \<^verbatim>\<open>debounce\<close> returns, and the log of the calls of the wrapped function with the
  time of each call and its arguments.
\<close>

record 'a timer =
  timer_id :: nat
  due :: nat
  args :: 'a

record 'a scheduler =
  clock :: nat
  next_id :: nat
  timers :: "'a timer list"
  timeout :: "nat option"
  executed :: "(nat \<times> 'a) list"

definition new_scheduler :: "'a scheduler" where
  "new_scheduler = \<lparr>clock = 0, next_id = 1, timers = [], timeout = None, executed = []\<rparr>"

definition clearTimeout :: "nat option \<Rightarrow> 'a scheduler \<Rightarrow> 'a scheduler" where
  "clearTimeout handle s = s\<lparr>timers := filter (\<lambda>x. Some (timer_id x) \<noteq> handle) (timers s)\<rparr>"

definition setTimeout :: "'a \<Rightarrow> nat \<Rightarrow> 'a scheduler \<Rightarrow> nat \<times> 'a scheduler" where
  "setTimeout a delay s =
     (next_id s,
      s\<lparr>next_id := Suc (next_id s),
        timers := timers s @ [\<lparr>timer_id = next_id s, due = clock s + delay, args = a\<rparr>]\<rparr>)"

text \<open>One call of the function returned by \<^verbatim>\<open>debounce(func, delay)\<close>.\<close>

definition debounced :: "nat \<Rightarrow> 'a \<Rightarrow> 'a scheduler \<Rightarrow> 'a scheduler" where
  "debounced delay a s =
     (let s1 = clearTimeout (timeout s) s;
          (handle, s2) = setTimeout a delay s1
      in s2\<lparr>timeout := Some handle\<rparr>)"

text \<open>
  The host lets the clock reach \<open>t\<close>: every timer due by then fires, earliest first, and
  its callback calls the wrapped function with the arguments it captured.
\<close>

definition advance :: "nat \<Rightarrow> 'a scheduler \<Rightarrow> 'a scheduler" where
  "advance t s =
     s\<lparr>clock := max (clock s) t,
       timers := filter (\<lambda>x. \<not> due x \<le> t) (timers s),
       executed := executed s
         @ map (\<lambda>x. (due x, args x)) (sort_key due (filter (\<lambda>x. due x \<le> t) (timers s)))\<rparr>"

text \<open>
  A sequence of invocations, each with its time and arguments, and the states the
  scheduler goes through while it is run.
\<close>

fun run_calls :: "nat \<Rightarrow> (nat \<times> 'a) list \<Rightarrow> 'a scheduler \<Rightarrow> 'a scheduler" where
  "run_calls delay [] s = s"
| "run_calls delay ((t, a) # cs) s = run_calls delay cs (debounced delay a (advance t s))"

fun run_states :: "nat \<Rightarrow> (nat \<times> 'a) list \<Rightarrow> 'a scheduler \<Rightarrow> 'a scheduler list" where
  "run_states delay [] s = [s]"
| "run_states delay ((t, a) # cs) s =
     s # advance t s # clearTimeout (timeout (advance t s)) (advance t s)
       # run_states delay cs (debounced delay a (advance t s))"

fun burst :: "nat \<Rightarrow> (nat \<times> 'a) list \<Rightarrow> bool" where
  "burst delay (c1 # c2 # cs) =
     (fst c1 \<le> fst c2 \<and> fst c2 < fst c1 + delay \<and> burst delay (c2 # cs))"
| "burst delay cs = True"

section \<open>Auxiliary notions and sample data\<close>

text \<open>The world a completion ends in, and the scheme of a URL: the text before its first colon.\<close>

definition reached :: "completion \<Rightarrow> world" where
  "reached c = (case c of Inl (m, w) \<Rightarrow> w | Inr w \<Rightarrow> w)"

definition url_scheme :: "string \<Rightarrow> string" where
  "url_scheme u = takeWhile (\<lambda>c. c \<noteq> CHR '':'') u"

text \<open>
  A host for the concrete instances below: it prints the whole part of a number in decimal,
  and cuts the time and the date out of a timestamp of the form \<^verbatim>\<open>YYYY-MM-DD HH:MM\<close>.
\<close>

fun decimal :: "nat \<Rightarrow> string" where
  "decimal n = (if n < 10 then [hex_digit n] else decimal (n div 10) @ [hex_digit (n mod 10)])"

declare decimal.simps [simp del]

definition sample_host :: host where
  "sample_host =
     \<lparr>numberToString =
        (\<lambda>r. if r < 0 then CHR ''-'' # decimal (nat (- \<lfloor>r\<rfloor>)) else decimal (nat \<lfloor>r\<rfloor>)),
      toLocaleTimeString = (\<lambda>s. drop 11 s),
      toLocaleDateString = (\<lambda>s. take 10 s),
      nullTypeError = ''Cannot destructure property of null'',
      setItemError = (\<lambda>k v. None)\<rparr>"

text \<open>The same host over a store that refuses every write.\<close>

definition refusing_host :: host where
  "refusing_host = sample_host\<lparr>setItemError := (\<lambda>k v. Some ''The quota has been exceeded.'')\<rparr>"

definition sample_snapshot :: weather_data where
  "sample_snapshot =
     \<lparr>location = \<lparr>name = ''Paris'', country = ''France'', localtime = ''2025-08-10 14:30''\<rparr>,
      current =
        \<lparr>temp_c = 27 / 2, temp_f = 563 / 10,
         condition = \<lparr>icon = ''//cdn.weatherapi.com/weather/64x64/day/116.png'',
                      ctext = ''Partly cloudy''\<rparr>,
         wind_kph = 13, wind_dir = ''WSW'', humidity = 72, pressure_mb = 1015, vis_km = 10,
         is_day = 1\<rparr>\<rparr>"

definition sample_display :: elements where
  "sample_display =
     \<lparr>temperature = [], location_text = [], time = [], date = [],
      conditionIcon_src = [], conditionIcon_alt = [], conditionText = [],
      windSpeed = [], windDir = [], humidity_text = [], pressure = [], visibility = [],
      searchInput_value = [], suggestions_innerHTML = [], suggestions_classList = [],
      unitButtons =
        [\<lparr>classList = [''active''], textContent = ''C'', dataset_unit = Some ''c''\<rparr>,
         \<lparr>classList = [], textContent = ''F'', dataset_unit = Some ''f''\<rparr>]\<rparr>"

definition sample_world :: world where
  "sample_world = page_load Map.empty sample_display []"

definition sample_error :: "string \<Rightarrow> error_data" where
  "sample_error m = \<lparr>error = Some \<lparr>message = Some m\<rparr>\<rparr>"

text \<open>
  The sample world after a fetch for Paris that gets the sample snapshot while the store
  refuses the write.
\<close>

definition after_refused_write :: world where
  "after_refused_write =
     reached (fetchWeather refusing_host ''Paris''
       (Fulfilled (Response_ok (Fulfilled sample_snapshot))) sample_world)"

text \<open>The sample world after a successful fetch for Paris.\<close>

definition sample_loaded :: world where
  "sample_loaded =
     reached (fetchWeather sample_host ''Paris'' (Fulfilled (Response_ok (Fulfilled sample_snapshot)))
       sample_world)"

text \<open>The sample world with a text typed into the search field, and a search result of six places.\<close>

definition typing :: "string \<Rightarrow> world" where
  "typing v = sample_world\<lparr>display := sample_display\<lparr>searchInput_value := v\<rparr>\<rparr>"


text \<open>
  Invariants of the scheduler of one debounced function. Armed: a pending timer is the one
  whose handle the closure holds, and there is no other.
\<close>

definition armed :: "'a scheduler \<Rightarrow> bool" where
  "armed s = (timers s = [] \<or> (\<exists>x. timers s = [x] \<and> timeout s = Some (timer_id x)))"

text \<open>Waiting: nothing has run, and a pending timer is the closure's and due after \<open>t\<close>.\<close>

definition waiting :: "nat \<Rightarrow> 'a scheduler \<Rightarrow> bool" where
  "waiting t s =
     (executed s = [] \<and> clock s \<le> t
      \<and> (timers s = [] \<or> (\<exists>x. timers s = [x] \<and> timeout s = Some (timer_id x) \<and> t < due x)))"

text \<open>Four keystrokes, each less than 300 ms after the one before.\<close>

definition keystrokes :: "(nat \<times> string) list" where
  "keystrokes = [(0, ''P''), (120, ''Pa''), (250, ''Par''), (549, ''Pari'')]"

section \<open>Properties of the fetch cycle\<close>

lemmas fetch_defs = fetchWeather_def fetchWeather_settle_def fetchWeather_begin_def
  fetchWeather_try_def try_catch_def and_then_def updateUI_def updateTemperature_def
  updateDateTime_def render_condition_def storeLocation_def showLoadingState_def
  showErrorState_def send_def

lemma sample_number_14: "numberToString sample_host 14 = ''14''"
  by code_simp

lemma sample_accepts: "setItemError sample_host k v = None"
  by (simp add: sample_host_def)

lemma refusing_number: "numberToString refusing_host = numberToString sample_host"
  by (simp add: refusing_host_def)

lemma refusing_refuses: "setItemError refusing_host k v = Some ''The quota has been exceeded.''"
  by (simp add: refusing_host_def)

lemma fetchWeather_settle_total:
  "\<exists>w'. fetchWeather_settle h loc outcome w = Inr w' \<and> requests w' = requests w"
proof (cases outcome)
  case (Rejected m)
  then show ?thesis by (simp add: fetch_defs)
next
  case (Fulfilled r)
  show ?thesis
  proof (cases r)
    case (Response_ok b)
    with Fulfilled show ?thesis
      by (cases b; cases "setItemError h ''lastLocation'' loc") (simp_all add: fetch_defs Let_def)
  next
    case (Response_not_ok b)
    with Fulfilled show ?thesis by (cases b) (simp_all add: fetch_defs)
  qed
qed

lemma fetchWeather_total:
  "\<exists>w'. fetchWeather h loc outcome w = Inr w' \<and> requests w' = requests w @ [current_request loc]"
  using fetchWeather_settle_total [of h loc outcome "fetchWeather_begin loc w"]
  by (simp add: fetchWeather_def fetchWeather_begin_def send_def showLoadingState_def)

lemma sample_loaded_state:
  "state sample_loaded = \<lparr>currentUnit = ''c'', lastLocation = ''Paris'', weatherData = Some sample_snapshot\<rparr>"
  by (simp add: sample_loaded_def fetch_defs Let_def reached_def sample_world_def page_load_def
      initial_state_def sample_accepts)

lemma sample_loaded_store: "localStorage sample_loaded ''lastLocation'' = Some ''Paris''"
  by (simp add: sample_loaded_def fetch_defs Let_def reached_def sample_world_def page_load_def
      sample_accepts)

text \<open>
  The world after the refused write: the fetch has completed normally, the snapshot and the
  location are in the state, the store is as it was, and the display shows the error state
  over what \<^verbatim>\<open>updateUI\<close> has rendered.
\<close>

lemma refused_write_completes:
  "fetchWeather refusing_host ''Paris'' (Fulfilled (Response_ok (Fulfilled sample_snapshot)))
     sample_world = Inr after_refused_write"
  by (simp add: after_refused_write_def fetch_defs Let_def reached_def refusing_refuses)

lemma after_refused_write_state:
  "state after_refused_write
     = \<lparr>currentUnit = ''c'', lastLocation = ''Paris'', weatherData = Some sample_snapshot\<rparr>"
  by (simp add: after_refused_write_def fetch_defs Let_def reached_def refusing_refuses
      sample_world_def page_load_def initial_state_def)

lemma after_refused_write_store: "localStorage after_refused_write = Map.empty"
  by (simp add: after_refused_write_def fetch_defs Let_def reached_def refusing_refuses
      sample_world_def page_load_def)

lemma after_refused_write_shown:
  "temperature (display after_refused_write) = ''--''"
  "conditionText (display after_refused_write) = ''The quota has been exceeded.''"
  by (simp_all add: after_refused_write_def fetch_defs Let_def reached_def refusing_refuses
      or_default_def)

text \<open>
  C1 (amended). A fetch whose response is a success and whose body is a snapshot, when the
  store accepts the write of the location, completes normally; the selected unit is
  unchanged, and the temperature display holds the string of \<^verbatim>\<open>Math.round\<close> of
  \<^verbatim>\<open>temp_c\<close> when the selected unit is \<^verbatim>\<open>c\<close>, of \<^verbatim>\<open>temp_f\<close> when it is \<^verbatim>\<open>f\<close>.
\<close>

theorem fetchWeather_temperature_matches_unit:
  "setItemError h ''lastLocation'' loc = None \<Longrightarrow>
   \<exists>w'. fetchWeather h loc (Fulfilled (Response_ok (Fulfilled d))) w = Inr w'
     \<and> currentUnit (state w') = currentUnit (state w)
     \<and> (currentUnit (state w) = ''c'' \<longrightarrow>
          temperature (display w') = numberToString h (of_int (Math_round (temp_c (current d)))))
     \<and> (currentUnit (state w) = ''f'' \<longrightarrow>
          temperature (display w') = numberToString h (of_int (Math_round (temp_f (current d)))))"
  by (simp add: fetch_defs rounded_text_def temp_of_def Let_def)

theorem fetchWeather_temperature_matches_unit_witness:
  "setItemError sample_host ''lastLocation'' ''Paris'' = None
   \<and> currentUnit (state sample_world) = ''c''
   \<and> (\<exists>w'. fetchWeather sample_host ''Paris'' (Fulfilled (Response_ok (Fulfilled sample_snapshot)))
              sample_world = Inr w'
          \<and> temperature (display w') = ''14'')"
  using fetchWeather_temperature_matches_unit
    [of sample_host "''Paris''" sample_snapshot sample_world]
  by (auto simp add: sample_world_def page_load_def initial_state_def sample_snapshot_def
      Math_round_def sample_number_14 sample_accepts)

text \<open>
  C1, as stated, fails when the store refuses the write: the response is a success, the
  body is the sample snapshot and the unit is \<^verbatim>\<open>c\<close>, whose rounded reading prints as
  \<^verbatim>\<open>14\<close>; \<^verbatim>\<open>localStorage.setItem\<close> throws after \<^verbatim>\<open>updateUI\<close>, the \<^verbatim>\<open>catch\<close> clause
  renders the error state, and the temperature display ends with the dashes.
\<close>

theorem refused_write_shows_dashes:
  "currentUnit (state sample_world) = ''c''
   \<and> numberToString refusing_host (of_int (Math_round (temp_c (current sample_snapshot)))) = ''14''
   \<and> fetchWeather refusing_host ''Paris'' (Fulfilled (Response_ok (Fulfilled sample_snapshot)))
        sample_world = Inr after_refused_write
   \<and> temperature (display after_refused_write) = ''--''"
proof (intro conjI)
  show "currentUnit (state sample_world) = ''c''"
    by (simp add: sample_world_def page_load_def initial_state_def)
  show "numberToString refusing_host (of_int (Math_round (temp_c (current sample_snapshot)))) = ''14''"
    by (simp add: refusing_number sample_snapshot_def Math_round_def sample_number_14)
  show "fetchWeather refusing_host ''Paris'' (Fulfilled (Response_ok (Fulfilled sample_snapshot)))
        sample_world = Inr after_refused_write"
    by (rule refused_write_completes)
  show "temperature (display after_refused_write) = ''--''"
    by (rule after_refused_write_shown)
qed

text \<open>
  An error payload is rendered as its message when it has one that is not empty, and as
  the fallback string otherwise.
\<close>

lemma fetchWeather_error_payload:
  "\<exists>w'. fetchWeather h loc (Fulfilled (Response_not_ok (Fulfilled errorData))) w = Inr w'
      \<and> temperature (display w') = ''--''
      \<and> (\<forall>e m. error errorData = Some e \<and> message e = Some m \<and> m \<noteq> [] \<longrightarrow>
            conditionText (display w') = m)
      \<and> (error errorData = None
           \<or> (\<exists>e. error errorData = Some e \<and> (message e = None \<or> message e = Some [])) \<longrightarrow>
            conditionText (display w') = ''Weather data unavailable'')"
  by (auto simp add: fetch_defs error_message_def or_default_def split: option.splits)

text \<open>
  C2. A response that is not a success and whose body is not JSON, such as the error page
  of a gateway: reading the body fails before the fallback string is chosen, so the fetch
  completes normally with the dashes in the temperature display, but the condition text is
  the message of the parse failure and not the fallback string.
\<close>

theorem not_ok_unreadable_body_shows_parser_message:
  "fetchWeather sample_host ''Paris''
     (Fulfilled (Response_not_ok (Rejected ''Unexpected token < in JSON at position 0'')))
     sample_world
   = Inr (sample_world
       \<lparr>display := sample_display
          \<lparr>temperature := ''--'',
           conditionText := ''Unexpected token < in JSON at position 0''\<rparr>,
        requests := [current_request ''Paris'']\<rparr>)"
  by (simp add: fetch_defs or_default_def sample_world_def page_load_def)

text \<open>
  The query of a fetch is never empty: the startup fetch takes the initial location, the
  search handler fetches only for a text that is not empty after trimming, and the text of
  a suggestion entry holds at least the separator.
\<close>

lemma initial_location_not_empty: "lastLocation (initial_state store) \<noteq> []"
  by (simp add: initial_state_def or_default_def split: option.splits)

lemma handleSearch_empty_query:
  "trim (searchInput_value (display w)) = [] \<Longrightarrow> handleSearch h outcome w = Inr w"
  by (simp add: handleSearch_def)

lemma suggestion_text_not_empty: "name item @ '', '' @ country item \<noteq> []"
  by simp

text \<open>
  C3 (amended). After a successful fetch for the query \<open>loc\<close>, when the store accepts the
  write, the location in memory and the persisted one both equal \<open>loc\<close>; a fresh page load
  over that store starts from \<open>loc\<close> and its startup fetch asks for \<open>loc\<close> (the query of a
  fetch is never empty).
\<close>

theorem fetchWeather_persists_location:
  assumes "setItemError h ''lastLocation'' loc = None"
  shows "\<exists>w'. fetchWeather h loc (Fulfilled (Response_ok (Fulfilled d))) w = Inr w'
     \<and> lastLocation (state w') = loc
     \<and> localStorage w' ''lastLocation'' = Some loc
     \<and> (loc \<noteq> [] \<longrightarrow>
          lastLocation (state (page_load (localStorage w') els body)) = loc
          \<and> (\<exists>w''. initApp h' outcome (page_load (localStorage w') els body) = Inr w''
                \<and> requests w'' = [current_request loc]))"
proof -
  let ?w' = "reached (fetchWeather h loc (Fulfilled (Response_ok (Fulfilled d))) w)"
  have ok: "fetchWeather h loc (Fulfilled (Response_ok (Fulfilled d))) w = Inr ?w'"
    using assms by (simp add: fetch_defs Let_def reached_def)
  have mem: "lastLocation (state ?w') = loc"
    using assms by (simp add: fetch_defs Let_def reached_def)
  have sto: "localStorage ?w' ''lastLocation'' = Some loc"
    using assms by (simp add: fetch_defs Let_def reached_def)
  have start: "lastLocation (state (page_load (localStorage ?w') els body))
      = (if loc = [] then ''London'' else loc)"
    using sto by (simp add: page_load_def initial_state_def or_default_def)
  have req: "\<exists>w''. initApp h' outcome (page_load (localStorage ?w') els body) = Inr w''
      \<and> requests w'' = [current_request (lastLocation (state (page_load (localStorage ?w') els body)))]"
    using fetchWeather_total [of h' _ outcome "page_load (localStorage ?w') els body"]
    by (simp add: initApp_def page_load_def)
  show ?thesis
    using ok mem sto start req by (intro exI [of _ ?w']) auto
qed

theorem fetchWeather_persists_location_witness:
  "setItemError sample_host ''lastLocation'' ''Paris'' = None \<and> ''Paris'' \<noteq> []
   \<and> (\<exists>w'. fetchWeather sample_host ''Paris'' (Fulfilled (Response_ok (Fulfilled sample_snapshot)))
              sample_world = Inr w'
          \<and> lastLocation (state w') = ''Paris''
          \<and> localStorage w' ''lastLocation'' = Some ''Paris''
          \<and> lastLocation (state (page_load (localStorage w') sample_display [])) = ''Paris''
          \<and> (\<exists>w''. initApp sample_host (Rejected ''Failed to fetch'')
                       (page_load (localStorage w') sample_display []) = Inr w''
                \<and> requests w'' = [current_request ''Paris'']))"
  using fetchWeather_persists_location
    [OF sample_accepts, of "''Paris''" sample_snapshot sample_world sample_display "[]"
      sample_host "Rejected ''Failed to fetch''"]
  by (auto simp add: sample_accepts)

text \<open>
  C3, as stated, fails when the store refuses the write: after the successful fetch for
  Paris the location in memory is Paris while the store holds no location, and the next
  page load starts from \<^verbatim>\<open>London\<close> and asks for it.
\<close>

theorem refused_write_leaves_store_behind:
  "fetchWeather refusing_host ''Paris'' (Fulfilled (Response_ok (Fulfilled sample_snapshot)))
     sample_world = Inr after_refused_write
   \<and> lastLocation (state after_refused_write) = ''Paris''
   \<and> localStorage after_refused_write ''lastLocation'' = None
   \<and> lastLocation (state (page_load (localStorage after_refused_write) sample_display []))
       = ''London''
   \<and> requests (reached (initApp sample_host (Rejected ''Failed to fetch'')
         (page_load (localStorage after_refused_write) sample_display [])))
       = [\<lparr>endpoint = ''current.json'', q = ''London''\<rparr>]"
proof (intro conjI)
  show "fetchWeather refusing_host ''Paris'' (Fulfilled (Response_ok (Fulfilled sample_snapshot)))
     sample_world = Inr after_refused_write"
    by (rule refused_write_completes)
  show "lastLocation (state after_refused_write) = ''Paris''"
    by (simp add: after_refused_write_state)
  show "localStorage after_refused_write ''lastLocation'' = None"
    by (simp add: after_refused_write_store)
  show "lastLocation (state (page_load (localStorage after_refused_write) sample_display []))
       = ''London''"
    by (simp add: after_refused_write_store page_load_def initial_state_def or_default_def)
  show "requests (reached (initApp sample_host (Rejected ''Failed to fetch'')
         (page_load (localStorage after_refused_write) sample_display [])))
       = [\<lparr>endpoint = ''current.json'', q = ''London''\<rparr>]"
    by (simp add: after_refused_write_store fetch_defs initApp_def page_load_def
        initial_state_def or_default_def reached_def current_request_def
        encodeURIComponent_def encode_unit_def uri_unreserved_def)
qed

text \<open>
  C7. Rendering a snapshot writes as icon source the snapshot's icon reference behind the
  prefix \<^verbatim>\<open>https:\<close>, so the scheme of the written URL is \<^verbatim>\<open>https\<close>.
\<close>

theorem updateUI_icon_https:
  "weatherData (state w) = Some d \<Longrightarrow>
   \<exists>w'. updateUI h w = Inr w'
     \<and> conditionIcon_src (display w') = ''https:'' @ icon (condition (current d))
     \<and> url_scheme (conditionIcon_src (display w')) = ''https''"
  by (simp add: updateUI_def Let_def render_condition_def url_scheme_def)

theorem updateUI_icon_https_witness:
  "weatherData (state (sample_world\<lparr>state := (state sample_world)\<lparr>weatherData := Some sample_snapshot\<rparr>\<rparr>))
     = Some sample_snapshot
   \<and> (\<exists>w'. updateUI sample_host
             (sample_world\<lparr>state := (state sample_world)\<lparr>weatherData := Some sample_snapshot\<rparr>\<rparr>)
           = Inr w'
        \<and> conditionIcon_src (display w')
            = ''https://cdn.weatherapi.com/weather/64x64/day/116.png'')"
  using updateUI_icon_https
    [of "sample_world\<lparr>state := (state sample_world)\<lparr>weatherData := Some sample_snapshot\<rparr>\<rparr>"
      sample_snapshot sample_host]
  by (auto simp add: sample_snapshot_def)

text \<open>
  C8. When the fetch is rejected, or the response is not a success, or the body of a
  successful response cannot be read, the fetch completes normally with the snapshot, the
  location in memory and the persisted store as they were; of the display only the
  temperature, which shows the dashes, and the condition text differ.
\<close>

theorem fetchWeather_failure_keeps_state:
  "outcome = Rejected msg \<or> outcome = Fulfilled (Response_not_ok body)
     \<or> outcome = Fulfilled (Response_ok (Rejected msg)) \<Longrightarrow>
   \<exists>w'. fetchWeather h loc outcome w = Inr w'
     \<and> weatherData (state w') = weatherData (state w)
     \<and> lastLocation (state w') = lastLocation (state w)
     \<and> localStorage w' ''lastLocation'' = localStorage w ''lastLocation''
     \<and> state w' = state w \<and> localStorage w' = localStorage w
     \<and> body_classList w' = body_classList w
     \<and> display w' = (display w)
           \<lparr>temperature := ''--'', conditionText := conditionText (display w')\<rparr>"
  by (cases body) (auto simp add: fetch_defs)

theorem fetchWeather_failure_keeps_state_witness:
  "\<exists>w'. fetchWeather sample_host ''Atlantis''
          (Fulfilled (Response_not_ok (Fulfilled (sample_error ''Location not found''))))
          sample_loaded = Inr w'
     \<and> lastLocation (state w') = ''Paris''
     \<and> localStorage w' ''lastLocation'' = Some ''Paris''
     \<and> weatherData (state w') = Some sample_snapshot"
  using fetchWeather_failure_keeps_state
    [of "Fulfilled (Response_not_ok (Fulfilled (sample_error ''Location not found'')))" "[]"
      "Fulfilled (sample_error ''Location not found'')" sample_host "''Atlantis''" sample_loaded]
  by (auto simp add: sample_loaded_state sample_loaded_store)

text \<open>
  C10. When the store has no \<^verbatim>\<open>lastLocation\<close> or holds the empty string for it, the
  initial state's location is \<^verbatim>\<open>London\<close> and the startup fetch sends exactly one
  request, for \<^verbatim>\<open>London\<close>.
\<close>

theorem startup_defaults_to_London:
  "store ''lastLocation'' = None \<or> store ''lastLocation'' = Some [] \<Longrightarrow>
   lastLocation (initial_state store) = ''London''
   \<and> lastLocation (state (page_load store els body)) = ''London''
   \<and> (\<exists>w'. initApp h outcome (page_load store els body) = Inr w'
          \<and> requests w' = [current_request ''London''])"
proof -
  assume a: "store ''lastLocation'' = None \<or> store ''lastLocation'' = Some []"
  then have l: "lastLocation (initial_state store) = ''London''"
    by (auto simp add: initial_state_def or_default_def)
  then show ?thesis
    using fetchWeather_total [of h "''London''" outcome "page_load store els body"]
    by (simp add: initApp_def page_load_def)
qed

theorem startup_defaults_to_London_witness:
  "(Map.empty :: string \<rightharpoonup> string) ''lastLocation'' = None
   \<and> lastLocation (initial_state Map.empty) = ''London''
   \<and> (\<exists>w'. initApp sample_host (Fulfilled (Response_ok (Fulfilled sample_snapshot)))
             (page_load Map.empty sample_display []) = Inr w'
          \<and> requests w' = [\<lparr>endpoint = ''current.json'', q = ''London''\<rparr>])"
  using startup_defaults_to_London
    [of Map.empty sample_display "[]" sample_host "Fulfilled (Response_ok (Fulfilled sample_snapshot))"]
  by (auto simp add: current_request_def encodeURIComponent_def encode_unit_def uri_unreserved_def)

section \<open>Properties of the unit toggle\<close>

lemma toggle_active_active:
  "classList_contains ''active'' (classList (toggle_active unit btn)) = (dataset_unit btn = Some unit)"
  by (simp add: toggle_active_def classList_toggle_def classList_add_def classList_remove_def
      classList_contains_def)

lemma toggle_active_dataset: "dataset_unit (toggle_active unit btn) = dataset_unit btn"
  by (simp add: toggle_active_def)

lemma round_563: "Math_round (563 / 10) = 56"
  by code_simp

lemma sample_number_56: "numberToString sample_host 56 = ''56''"
  by code_simp

text \<open>
  C4. A unit click for a unit other than the selected one, with a snapshot in the state,
  changes in the state only the selected unit, and in the display only the temperature and
  the unit buttons: the temperature is the rounded reading of the snapshot already held
  for the clicked unit, and a button is active exactly when it is the clicked unit's. No
  request is sent; the persisted store and the class list of the body are as before.
\<close>

theorem switchUnit_frame:
  assumes "currentUnit (state w) \<noteq> unit" and "weatherData (state w) = Some d"
  shows "state (switchUnit h unit w) = (state w)\<lparr>currentUnit := unit\<rparr>
    \<and> display (switchUnit h unit w) = (display w)
         \<lparr>temperature := rounded_text h (temp_of (current d) unit),
          unitButtons := map (toggle_active unit) (unitButtons (display w))\<rparr>
    \<and> (unit = ''c'' \<longrightarrow> temperature (display (switchUnit h unit w))
           = numberToString h (of_int (Math_round (temp_c (current d)))))
    \<and> (unit = ''f'' \<longrightarrow> temperature (display (switchUnit h unit w))
           = numberToString h (of_int (Math_round (temp_f (current d)))))
    \<and> list_all (\<lambda>btn. classList_contains ''active'' (classList btn) = (dataset_unit btn = Some unit))
         (unitButtons (display (switchUnit h unit w)))
    \<and> requests (switchUnit h unit w) = requests w
    \<and> localStorage (switchUnit h unit w) = localStorage w
    \<and> body_classList (switchUnit h unit w) = body_classList w"
proof -
  have sw: "switchUnit h unit w =
      updateTemperature h (temp_of (current d) unit) unit (w\<lparr>state := (state w)\<lparr>currentUnit := unit\<rparr>\<rparr>)"
    using assms by (simp add: switchUnit_def)
  have btns: "list_all (\<lambda>btn. classList_contains ''active'' (classList btn) = (dataset_unit btn = Some unit))
      (map (toggle_active unit) bs)" for bs
    by (induction bs) (simp_all add: toggle_active_active toggle_active_dataset)
  show ?thesis
    unfolding sw by (simp add: updateTemperature_def rounded_text_def temp_of_def btns)
qed

theorem switchUnit_frame_witness:
  "currentUnit (state sample_loaded) \<noteq> ''f''
   \<and> weatherData (state sample_loaded) = Some sample_snapshot
   \<and> state (switchUnit sample_host ''f'' sample_loaded) = (state sample_loaded)\<lparr>currentUnit := ''f''\<rparr>
   \<and> temperature (display (switchUnit sample_host ''f'' sample_loaded)) = ''56''
   \<and> requests (switchUnit sample_host ''f'' sample_loaded) = requests sample_loaded"
proof -
  have differs: "currentUnit (state sample_loaded) \<noteq> ''f''"
    by (simp add: sample_loaded_state)
  have loaded: "weatherData (state sample_loaded) = Some sample_snapshot"
    by (simp add: sample_loaded_state)
  note frame = switchUnit_frame [OF differs loaded, of sample_host]
  from frame have "temperature (display (switchUnit sample_host ''f'' sample_loaded))
      = numberToString sample_host (of_int (Math_round (temp_f (current sample_snapshot))))"
    by blast
  then have shown: "temperature (display (switchUnit sample_host ''f'' sample_loaded)) = ''56''"
    by (simp add: sample_snapshot_def round_563 sample_number_56)
  from differs loaded frame shown show ?thesis
    by blast
qed

section \<open>Properties of the suggestion list\<close>


lemma showSuggestions_innerHTML:
  "suggestions_innerHTML (display (showSuggestions (Some items) w))
     = (if items = [] then suggestion_markup ''No results found''
        else concat (map (\<lambda>item. suggestion_markup (name item @ '', '' @ country item))
               (take 5 items)))"
  by (simp add: showSuggestions_def set_innerHTML_def Let_def)


lemma showSuggestions_requests: "requests (showSuggestions s w) = requests w"
  by (simp add: showSuggestions_def set_innerHTML_def Let_def split: option.splits)




text \<open>
  The markup puts the text of an entry in as it is: a name that holds markup of its own
  makes one entry into two elements.
\<close>

lemma markup_in_name_adds_element:
  \<open>children_of (suggestion_markup (''A</div><div class="suggestion-item">B'' @ '', '' @ ''C''))
     = Some [suggestion_element ''A'', suggestion_element ''B, C'']\<close>
  by code_simp

lemma children_of_placeholder:
  "children_of (suggestion_markup ''No results found'')
     = Some [suggestion_element ''No results found'']"
  by code_simp

lemma encode_placeholder: "encodeURIComponent ''No results found'' = ''No%20results%20found''"
  by (simp add: encodeURIComponent_def encode_unit_def uri_unreserved_def percent_byte_def hex_digit_def)

text \<open>
  C9. For an empty search result the markup written to the suggestion list is one
  \<^verbatim>\<open>div\<close>, the placeholder \<^verbatim>\<open>No results found\<close>, with the same class \<^verbatim>\<open>suggestion-item\<close>
  as an entry for a place, and the list holds that one element. A click on it passes the
  class test of the click handler, which starts a fetch: the request sent is a
  current-conditions request whose query is the placeholder's text.
\<close>

theorem placeholder_click_fetches:
  \<open>children_of (suggestions_innerHTML (display (showSuggestions (Some []) w)))
     = Some [suggestion_element ''No results found'']
   \<and> suggestions_innerHTML (display (showSuggestions (Some []) w))
     = ''<div class="suggestion-item">No results found</div>''
   \<and> classList (suggestion_element ''No results found'')
     = classList (suggestion_element (name item @ '', '' @ country item))
   \<and> classList_contains ''suggestion-item'' (classList (suggestion_element ''No results found''))
   \<and> handleSuggestionClick (suggestion_element ''No results found'') v
     = clearSearch (fetchWeather_begin ''No results found'' v)
   \<and> requests (handleSuggestionClick (suggestion_element ''No results found'') v)
     = requests v @ [current_request ''No results found'']
   \<and> current_request ''No results found''
     = \<lparr>endpoint = ''current.json'', q = ''No%20results%20found''\<rparr>\<close>
proof (intro conjI)
  have written: "suggestions_innerHTML (display (showSuggestions (Some []) w))
      = suggestion_markup ''No results found''"
    by (simp add: showSuggestions_innerHTML)
  show "children_of (suggestions_innerHTML (display (showSuggestions (Some []) w)))
     = Some [suggestion_element ''No results found'']"
    unfolding written by (rule children_of_placeholder)
  show \<open>suggestions_innerHTML (display (showSuggestions (Some []) w))
     = ''<div class="suggestion-item">No results found</div>''\<close>
    unfolding written by (simp add: suggestion_markup_def)
  show "classList (suggestion_element ''No results found'')
     = classList (suggestion_element (name item @ '', '' @ country item))"
    by (simp add: suggestion_element_def)
  show has_class: "classList_contains ''suggestion-item'' (classList (suggestion_element ''No results found''))"
    by (simp add: suggestion_element_def classList_contains_def)
  have content: "textContent (suggestion_element ''No results found'') = ''No results found''"
    by (simp add: suggestion_element_def)
  show click: "handleSuggestionClick (suggestion_element ''No results found'') v
     = clearSearch (fetchWeather_begin ''No results found'' v)"
    unfolding handleSuggestionClick_def content using has_class by simp
  show "requests (handleSuggestionClick (suggestion_element ''No results found'') v)
     = requests v @ [current_request ''No results found'']"
    unfolding click
    by (simp add: clearSearch_def hideSuggestions_def fetchWeather_begin_def send_def
        showLoadingState_def)
  show "current_request ''No results found''
     = \<lparr>endpoint = ''current.json'', q = ''No%20results%20found''\<rparr>"
    by (simp add: current_request_def encode_placeholder)
qed

theorem placeholder_click_fetches_witness:
  "children_of (suggestions_innerHTML (display (showSuggestions (Some []) (typing ''zzzz''))))
     = Some [suggestion_element ''No results found'']
   \<and> requests (handleSuggestionClick (suggestion_element ''No results found'')
        (showSuggestions (Some []) (typing ''zzzz'')))
     = [\<lparr>endpoint = ''current.json'', q = ''No%20results%20found''\<rparr>]"
proof -
  note click = placeholder_click_fetches
    [of "typing ''zzzz''" "\<lparr>name = ''Paris'', country = ''France''\<rparr>"
      "showSuggestions (Some []) (typing ''zzzz'')"]
  have none: "requests (showSuggestions (Some []) (typing ''zzzz'')) = []"
    by (simp add: showSuggestions_requests typing_def sample_world_def page_load_def)
  have "requests (handleSuggestionClick (suggestion_element ''No results found'')
        (showSuggestions (Some []) (typing ''zzzz'')))
     = [current_request ''No results found'']"
    using click [THEN conjunct2, THEN conjunct2, THEN conjunct2, THEN conjunct2, THEN conjunct2,
        THEN conjunct1]
    by (simp only: none append_Nil)
  then show ?thesis
    using click [THEN conjunct1]
      click [THEN conjunct2, THEN conjunct2, THEN conjunct2, THEN conjunct2, THEN conjunct2,
        THEN conjunct2]
    by (simp only: simp_thms)
qed

section \<open>Properties of debounce\<close>

lemma armed_new: "armed new_scheduler"
  by (simp add: armed_def new_scheduler_def)

lemma armed_advance:
  assumes "armed s"
  shows "armed (advance t s)"
proof (cases "timers s")
  case Nil
  then show ?thesis by (simp add: armed_def advance_def)
next
  case (Cons x xs)
  with assms have one: "timers s = [x]" and mine: "timeout s = Some (timer_id x)"
    by (auto simp add: armed_def)
  show ?thesis
    by (cases "due x \<le> t") (simp_all add: armed_def advance_def one mine)
qed

lemma armed_clear: "armed s \<Longrightarrow> timers (clearTimeout (timeout s) s) = []"
  by (auto simp add: armed_def clearTimeout_def)

lemma debounced_timers:
  assumes "armed s"
  shows "timers (debounced delay a s)
      = [\<lparr>timer_id = next_id s, due = clock s + delay, args = a\<rparr>]"
    and "timeout (debounced delay a s) = Some (next_id s)"
    and "executed (debounced delay a s) = executed s"
    and "clock (debounced delay a s) = clock s"
  using armed_clear [OF assms]
  by (simp_all add: debounced_def setTimeout_def clearTimeout_def Let_def)

lemma armed_debounced: "armed s \<Longrightarrow> armed (debounced delay a s)"
  by (simp add: armed_def debounced_timers)

lemma armed_at_most_one: "armed s \<Longrightarrow> length (timers s) \<le> Suc 0"
  by (auto simp add: armed_def)

lemma run_states_at_most_one:
  "armed s \<Longrightarrow> list_all (\<lambda>s. length (timers s) \<le> 1) (run_states delay cs s)"
proof (induction cs arbitrary: s)
  case Nil
  then show ?case by (simp add: armed_at_most_one)
next
  case (Cons c cs)
  obtain t a where c: "c = (t, a)" by (cases c)
  have adv: "armed (advance t s)"
    using Cons.prems by (rule armed_advance)
  have "armed (debounced delay a (advance t s))"
    using adv by (rule armed_debounced)
  then have rest: "list_all (\<lambda>s. length (timers s) \<le> 1)
      (run_states delay cs (debounced delay a (advance t s)))"
    by (rule Cons.IH)
  show ?case
    using Cons.prems adv rest by (simp add: c armed_at_most_one armed_clear)
qed

lemma waiting_armed: "waiting t s \<Longrightarrow> armed s"
  by (auto simp add: waiting_def armed_def)

lemma waiting_advance:
  assumes "waiting t s"
  shows "advance t s = s\<lparr>clock := t\<rparr>"
  using assms by (auto simp add: waiting_def advance_def max_def)

lemma waiting_call:
  assumes "waiting t s"
  shows "executed (debounced delay a (advance t s)) = []"
    and "clock (debounced delay a (advance t s)) = t"
    and "\<exists>i. timers (debounced delay a (advance t s)) = [\<lparr>timer_id = i, due = t + delay, args = a\<rparr>]
           \<and> timeout (debounced delay a (advance t s)) = Some i"
proof -
  have adv: "advance t s = s\<lparr>clock := t\<rparr>"
    using assms by (rule waiting_advance)
  have arm: "armed (s\<lparr>clock := t\<rparr>)"
    using waiting_armed [OF assms] by (simp add: armed_def)
  show "executed (debounced delay a (advance t s)) = []"
    using assms by (simp add: adv debounced_timers [OF arm] waiting_def)
  show "clock (debounced delay a (advance t s)) = t"
    by (simp add: adv debounced_timers [OF arm])
  show "\<exists>i. timers (debounced delay a (advance t s)) = [\<lparr>timer_id = i, due = t + delay, args = a\<rparr>]
           \<and> timeout (debounced delay a (advance t s)) = Some i"
    by (simp add: adv debounced_timers [OF arm])
qed

lemma run_burst:
  assumes "burst delay ((t, a) # cs)" and "waiting t s"
  shows "executed (run_calls delay ((t, a) # cs) s) = []
    \<and> clock (run_calls delay ((t, a) # cs) s) = fst (last ((t, a) # cs))
    \<and> (\<exists>i. timers (run_calls delay ((t, a) # cs) s)
           = [\<lparr>timer_id = i, due = fst (last ((t, a) # cs)) + delay,
               args = snd (last ((t, a) # cs))\<rparr>]
         \<and> timeout (run_calls delay ((t, a) # cs) s) = Some i)"
  using assms
proof (induction cs arbitrary: t a s)
  case Nil
  then show ?case
    using waiting_call [of t s delay a] by simp
next
  case (Cons c cs)
  obtain t' a' where c: "c = (t', a')" by (cases c)
  let ?s = "debounced delay a (advance t s)"
  from Cons.prems(1) have order: "t \<le> t'" "t' < t + delay" and rest: "burst delay ((t', a') # cs)"
    by (simp_all add: c)
  have "waiting t' ?s"
    using waiting_call [OF Cons.prems(2), of delay a] order
    by (auto simp add: waiting_def)
  from Cons.IH [OF rest this] show ?case
    by (simp add: c)
qed

text \<open>
  C5. Invocations of a debounced function, the first on a new instance, each later one
  less than the delay after the one before. During the sequence the wrapped function is
  not called. It is not called before the delay has elapsed after the last invocation; once
  it has, the function has been called exactly once, at that time, with the arguments of the
  last invocation, and no timer remains. In every state the run goes through at most one
  timer is pending.
\<close>

theorem debounce_burst_runs_last_once:
  assumes "cs \<noteq> []" and "burst delay cs"
  shows "executed (run_calls delay cs new_scheduler) = []
    \<and> (T < fst (last cs) + delay \<longrightarrow>
         executed (advance T (run_calls delay cs new_scheduler)) = [])
    \<and> (fst (last cs) + delay \<le> T \<longrightarrow>
         executed (advance T (run_calls delay cs new_scheduler))
           = [(fst (last cs) + delay, snd (last cs))]
         \<and> timers (advance T (run_calls delay cs new_scheduler)) = [])
    \<and> list_all (\<lambda>s. length (timers s) \<le> 1)
         (run_states delay cs new_scheduler @ [advance T (run_calls delay cs new_scheduler)])"
proof -
  obtain t a cs' where cs: "cs = (t, a) # cs'"
    using assms(1) by (cases cs) auto
  have start: "waiting t (new_scheduler :: 'a scheduler)"
    by (simp add: waiting_def new_scheduler_def)
  let ?s = "run_calls delay cs new_scheduler"
  from run_burst [OF assms(2) [unfolded cs] start]
  obtain i where quiet: "executed ?s = []"
    and pending: "timers ?s = [\<lparr>timer_id = i, due = fst (last cs) + delay, args = snd (last cs)\<rparr>]"
    unfolding cs by blast
  have early: "T < fst (last cs) + delay \<longrightarrow> executed (advance T ?s) = []"
    by (simp add: advance_def quiet pending)
  have late: "fst (last cs) + delay \<le> T \<longrightarrow>
      executed (advance T ?s) = [(fst (last cs) + delay, snd (last cs))]
      \<and> timers (advance T ?s) = []"
    by (simp add: advance_def quiet pending)
  have "length (timers (advance T ?s)) \<le> 1"
    by (simp add: advance_def pending)
  then have one: "list_all (\<lambda>s. length (timers s) \<le> 1)
      (run_states delay cs new_scheduler @ [advance T ?s])"
    using run_states_at_most_one [OF armed_new, of delay cs] by simp
  from quiet early late one show ?thesis
    by (intro conjI)
qed

theorem debounce_burst_runs_last_once_witness:
  "keystrokes \<noteq> [] \<and> burst 300 keystrokes
   \<and> executed (run_calls 300 keystrokes new_scheduler) = []
   \<and> executed (advance 848 (run_calls 300 keystrokes new_scheduler)) = []
   \<and> executed (advance 849 (run_calls 300 keystrokes new_scheduler)) = [(849, ''Pari'')]
   \<and> timers (advance 849 (run_calls 300 keystrokes new_scheduler)) = []"
proof -
  have ne: "keystrokes \<noteq> []" by (simp add: keystrokes_def)
  have b: "burst 300 keystrokes" by (simp add: keystrokes_def)
  have l: "last keystrokes = (549, ''Pari'')" by (simp add: keystrokes_def)
  note early = debounce_burst_runs_last_once [OF ne b, of 848, unfolded l]
  note late = debounce_burst_runs_last_once [OF ne b, of 849, unfolded l]
  from early have 1: "executed (run_calls 300 keystrokes new_scheduler) = []"
    and 2: "executed (advance 848 (run_calls 300 keystrokes new_scheduler)) = []"
    by simp_all
  from late have 3: "executed (advance 849 (run_calls 300 keystrokes new_scheduler)) = [(849, ''Pari'')]"
    and 4: "timers (advance 849 (run_calls 300 keystrokes new_scheduler)) = []"
    by simp_all
  from ne b 1 2 3 4 show ?thesis by (intro conjI)
qed

end
